theory Spec2Isabelle
  imports Complex_Main "HOL-Library.AList"
begin

section \<open>Numbers and strings of the dashboard\<close>

text \<open>
  The overlay engine of the dashboard lives in two React components:
  \<^verbatim>\<open>MapView.jsx\<close> (rectangle drawing, slope-cell classification, tessellation and
  publication of the cells on the map) and the slope panel (the editable table of
  classification ranges, exported with \<^verbatim>\<open>DEFAULT_RANGES\<close>).

  JavaScript numbers are modelled as \<^typ>\<open>real\<close>: grid values and bounding boxes reach
  the code from JSON and from the map projection, which carry finite numbers only, and
  the comparisons \<^verbatim>\<open>>=\<close> and \<^verbatim>\<open><\<close> of finite numbers are those of the reals. The one
  place where the code meets \<^verbatim>\<open>NaN\<close> is \<^verbatim>\<open>parseFloat\<close>, whose result is an option
  (\<open>None\<close> is \<^verbatim>\<open>NaN\<close>). Strings are \<^typ>\<open>string\<close>; the empty string is the only falsy one.
\<close>

subsection \<open>Ranges\<close>

text \<open>A range of the table: \<^verbatim>\<open>{ min, max, color, label }\<close>.\<close>

record range =
  rmin :: real
  rmax :: real
  color :: string
  label :: string

text \<open>The en dash of the labels (\<^verbatim>\<open>U+2013\<close>), as its three UTF-8 bytes.\<close>

definition en_dash :: string where
  "en_dash = [CHR 0xE2, CHR 0x80, CHR 0x93]"

definition DEFAULT_RANGES :: "range list" where
  "DEFAULT_RANGES =
    [\<lparr>rmin = 0, rmax = 3, color = ''#38a800'', label = ''0 '' @ en_dash @ '' 3%''\<rparr>,
     \<lparr>rmin = 3, rmax = 7, color = ''#267300'', label = ''3 '' @ en_dash @ '' 7%''\<rparr>,
     \<lparr>rmin = 7, rmax = 12, color = ''#a8a800'', label = ''7 '' @ en_dash @ '' 12%''\<rparr>,
     \<lparr>rmin = 12, rmax = 25, color = ''#005500'', label = ''12 '' @ en_dash @ '' 25%''\<rparr>,
     \<lparr>rmin = 25, rmax = 50, color = ''#ffff00'', label = ''25 '' @ en_dash @ '' 50%''\<rparr>,
     \<lparr>rmin = 50, rmax = 75, color = ''#ff8c00'', label = ''50 '' @ en_dash @ '' 75%''\<rparr>,
     \<lparr>rmin = 75, rmax = 999, color = ''#ff0000'', label = ''> 75%''\<rparr>]"

section \<open>Classification of a slope value (MapView.jsx, lines 203 to 220)\<close>

text \<open>
  \<^verbatim>\<open>const ranges = slopeRanges || [];\<close> An array, even an empty one, is truthy; only a
  missing table is replaced.
\<close>

definition ranges_or_empty :: "range list option \<Rightarrow> range list" where
  "ranges_or_empty slopeRanges = (case slopeRanges of None \<Rightarrow> [] | Some rs \<Rightarrow> rs)"

text \<open>
  The walk
  \<^verbatim>\<open>for (const rng of ranges) { if (val >= rng.min && val < rng.max) { fillColor = rng.color; break; } }\<close>
  started with the current \<^verbatim>\<open>fillColor\<close>.
\<close>

fun walk :: "real \<Rightarrow> range list \<Rightarrow> string \<Rightarrow> string" where
  "walk val [] fillColor = fillColor"
| "walk val (rng # rest) fillColor =
     (if val \<ge> rmin rng \<and> val < rmax rng then color rng else walk val rest fillColor)"

text \<open>
  \<^verbatim>\<open>ranges[ranges.length - 1]\<close>: \<^verbatim>\<open>undefined\<close> on the empty array (index \<open>-1\<close>), which
  the optional chaining \<^verbatim>\<open>?.\<close> then carries on.
\<close>

definition last_range :: "range list \<Rightarrow> range option" where
  "last_range ranges = (if ranges = [] then None else Some (last ranges))"

text \<open>\<^verbatim>\<open>a || b\<close> on strings: the empty string is falsy.\<close>

definition or_string :: "string \<Rightarrow> string \<Rightarrow> string" where
  "or_string a b = (if a = [] then b else a)"

text \<open>
  The body of the cell loop that chooses the colour:
  \<^verbatim>\<open>
  let fillColor = '#888888';
  for (const rng of ranges) { ... }
  // Last range catches everything above
  if (val >= ranges[ranges.length - 1]?.min) {
      fillColor = ranges[ranges.length - 1]?.color || fillColor;
  }
  \<close>
  A comparison with \<^verbatim>\<open>undefined\<close> is false, so the empty table skips the second step.
\<close>

definition default_color :: string where
  "default_color = ''#888888''"

definition classify :: "real \<Rightarrow> range list \<Rightarrow> string" where
  "classify val ranges =
     (let fillColor = walk val ranges default_color
      in case last_range ranges of
           None \<Rightarrow> fillColor
         | Some lst \<Rightarrow>
             if val \<ge> rmin lst then or_string (color lst) fillColor else fillColor)"

text \<open>The half-open interval test of the walk.\<close>

definition in_range :: "real \<Rightarrow> range \<Rightarrow> bool" where
  "in_range val rng \<longleftrightarrow> val \<ge> rmin rng \<and> val < rmax rng"

text \<open>
  A table is sorted ascending when its bounds, read in list order, never decrease:
  \<open>min\<^sub>0 \<le> max\<^sub>0 \<le> min\<^sub>1 \<le> max\<^sub>1 \<le> \<dots>\<close>, as in \<^verbatim>\<open>DEFAULT_RANGES\<close>.
\<close>

definition ascending :: "range list \<Rightarrow> bool" where
  "ascending ranges = sorted (concat (map (\<lambda>rng. [rmin rng, rmax rng]) ranges))"

text \<open>
  The colours a table holds are colour strings, never empty: those of
  \<^verbatim>\<open>DEFAULT_RANGES\<close>, the \<^verbatim>\<open>'#ff6600'\<close> of an added range and the value of a colour input
  (\<^verbatim>\<open>#rrggbb\<close>).
\<close>

definition colored :: "range list \<Rightarrow> bool" where
  "colored ranges = list_all (\<lambda>rng. color rng \<noteq> []) ranges"

section \<open>Tessellation of the slope grid (MapView.jsx, lines 194 to 244)\<close>

text \<open>
  The payload of the slope provider, as the effect destructures it:
  \<^verbatim>\<open>const { slopes_percent, slopes, bbox: bboxStr, grid_size } = slopeData;\<close>
  A missing field is \<open>None\<close>. The bounding box is kept as the four numbers that
  \<^verbatim>\<open>bboxStr.split(',').map(Number)\<close> reads from a well-formed string
  \<^verbatim>\<open>"minx,miny,maxx,maxy"\<close>; \<open>None\<close> stands for a missing or empty string.
\<close>

record slope_data =
  slopes_percent :: "real list list option"
  slopes :: "real list list option"
  bbox :: "(real \<times> real \<times> real \<times> real) option"
  grid_size :: "nat option"

text \<open>
  A polygon feature: the single ring of \<^verbatim>\<open>geometry.coordinates\<close> and the two
  properties. The constant fields \<^verbatim>\<open>type: 'Feature'\<close> and
  \<^verbatim>\<open>geometry.type: 'Polygon'\<close> are left out.
\<close>

record feature =
  coordinates :: "(real \<times> real) list"
  prop_slope :: real
  prop_color :: string

text \<open>\<^verbatim>\<open>Math.round(val * 10) / 10\<close>; \<^verbatim>\<open>Math.round\<close> rounds halves up.\<close>

definition round1 :: "real \<Rightarrow> real" where
  "round1 val = of_int \<lfloor>val * 10 + 1 / 2\<rfloor> / 10"

text \<open>One turn of the inner loop: the feature pushed for row \<open>r\<close>, column \<open>c\<close>.\<close>

definition cell_feature ::
  "real \<Rightarrow> real \<Rightarrow> real \<Rightarrow> real \<Rightarrow> range list \<Rightarrow> nat \<Rightarrow> nat \<Rightarrow> real \<Rightarrow> feature" where
  "cell_feature minx miny dx dy ranges r c val =
     (let fillColor = classify val ranges;
          x0 = minx + real c * dx;
          y0 = miny + real r * dy
      in \<lparr>coordinates =
            [(x0, y0), (x0 + dx, y0), (x0 + dx, y0 + dy), (x0, y0 + dy), (x0, y0)],
          prop_slope = round1 val,
          prop_color = fillColor\<rparr>)"

text \<open>
  \<^verbatim>\<open>for (let c = 0; c < slopeGrid[r].length; c++)\<close>: the features pushed for the cells
  of one row, from column \<open>c\<close> on.
\<close>

fun row_loop ::
  "real \<Rightarrow> real \<Rightarrow> real \<Rightarrow> real \<Rightarrow> range list \<Rightarrow> nat \<Rightarrow> nat \<Rightarrow> real list \<Rightarrow> feature list" where
  "row_loop minx miny dx dy ranges r c [] = []"
| "row_loop minx miny dx dy ranges r c (val # vals) =
     cell_feature minx miny dx dy ranges r c val #
     row_loop minx miny dx dy ranges r (Suc c) vals"

text \<open>
  \<^verbatim>\<open>for (let r = 0; r < slopeGrid.length; r++)\<close>: the features pushed for the rows
  from row \<open>r\<close> on.
\<close>

fun grid_loop ::
  "real \<Rightarrow> real \<Rightarrow> real \<Rightarrow> real \<Rightarrow> range list \<Rightarrow> nat \<Rightarrow> real list list \<Rightarrow> feature list" where
  "grid_loop minx miny dx dy ranges r [] = []"
| "grid_loop minx miny dx dy ranges r (row # rows) =
     row_loop minx miny dx dy ranges r 0 row @
     grid_loop minx miny dx dy ranges (Suc r) rows"

text \<open>\<^verbatim>\<open>slopes_percent || slopes\<close>: an array is truthy, also the empty one.\<close>

definition or_grid :: "'a option \<Rightarrow> 'a option \<Rightarrow> 'a option" where
  "or_grid a b = (case a of Some g \<Rightarrow> Some g | None \<Rightarrow> b)"

text \<open>\<^verbatim>\<open>grid_size || slopeGrid.length\<close>: a missing size and the size 0 are falsy.\<close>

definition or_size :: "nat option \<Rightarrow> nat \<Rightarrow> nat" where
  "or_size a b = (case a of None \<Rightarrow> b | Some k \<Rightarrow> if k = 0 then b else k)"

text \<open>
  The features built by the effect, \<open>None\<close> when it returns before building any
  (\<^verbatim>\<open>if (!slopeGrid || !bboxStr) return;\<close>). The divisor \<open>n\<close> is 0 only for a grid
  without rows, where no cell reads \<open>dx\<close> or \<open>dy\<close>.
\<close>

definition slope_features :: "slope_data \<Rightarrow> range list option \<Rightarrow> feature list option" where
  "slope_features slopeData slopeRanges =
     (case or_grid (slopes_percent slopeData) (slopes slopeData) of
        None \<Rightarrow> None
      | Some slopeGrid \<Rightarrow>
          (case bbox slopeData of
             None \<Rightarrow> None
           | Some (minx, miny, maxx, maxy) \<Rightarrow>
               let n = or_size (grid_size slopeData) (length slopeGrid);
                   dx = (maxx - minx) / real n;
                   dy = (maxy - miny) / real n;
                   ranges = ranges_or_empty slopeRanges
               in Some (grid_loop minx miny dx dy ranges 0 slopeGrid)))"

text \<open>The position of cell \<open>(r, c)\<close> in the feature list: the cells of the rows before it, then \<open>c\<close>.\<close>

definition cell_index :: "real list list \<Rightarrow> nat \<Rightarrow> nat \<Rightarrow> nat" where
  "cell_index slopeGrid r c = sum_list (map length (take r slopeGrid)) + c"

section \<open>Publishing the cells on the map (MapView.jsx, lines 246 to 281)\<close>

text \<open>
  The map is the rendering surface of the maplibre library. The model keeps what the
  calls of the effect register on it: the sources with their data, the layers with
  their paint, and the listeners bound to a layer (event type and layer id; the bodies
  of the callbacks play no part). Adding appends, so that a second registration would
  show as a second entry.
\<close>

datatype paint_value = Get string | Str string | Num real

record layer =
  layer_id :: string
  layer_type :: string
  layer_source :: string
  paint :: "(string \<times> paint_value) list"

record surface =
  sources :: "(string \<times> feature list) list"
  layers :: "layer list"
  listeners :: "(string \<times> string) list"

definition getSource :: "surface \<Rightarrow> string \<Rightarrow> feature list option" where
  "getSource m sid = map_of (sources m) sid"

definition setData :: "surface \<Rightarrow> string \<Rightarrow> feature list \<Rightarrow> surface" where
  "setData m sid fc =
     m\<lparr>sources := map (\<lambda>(k, d). if k = sid then (k, fc) else (k, d)) (sources m)\<rparr>"

text \<open>The library throws when a source of that id exists already.\<close>

definition addSource :: "surface \<Rightarrow> string \<Rightarrow> feature list \<Rightarrow> string + surface" where
  "addSource m sid fc =
     (if getSource m sid \<noteq> None then Inl ''Source already exists''
      else Inr (m\<lparr>sources := sources m @ [(sid, fc)]\<rparr>))"

definition addLayer :: "surface \<Rightarrow> layer \<Rightarrow> surface" where
  "addLayer m l = m\<lparr>layers := layers m @ [l]\<rparr>"

definition setPaintProperty :: "surface \<Rightarrow> string \<Rightarrow> string \<Rightarrow> paint_value \<Rightarrow> surface" where
  "setPaintProperty m lid name v =
     m\<lparr>layers := map (\<lambda>l. if layer_id l = lid
                              then l\<lparr>paint := AList.update name v (paint l)\<rparr> else l)
                       (layers m)\<rparr>"

definition on :: "surface \<Rightarrow> string \<Rightarrow> string \<Rightarrow> surface" where
  "on m event lid = m\<lparr>listeners := listeners m @ [(event, lid)]\<rparr>"

definition slope_cells_fill :: layer where
  "slope_cells_fill =
     \<lparr>layer_id = ''slope-cells'', layer_type = ''fill'', layer_source = ''slope-cells'',
      paint = [(''fill-color'', Get ''color''), (''fill-opacity'', Num (7 / 10))]\<rparr>"

definition slope_cells_outline :: layer where
  "slope_cells_outline =
     \<lparr>layer_id = ''slope-cells-outline'', layer_type = ''line'', layer_source = ''slope-cells'',
      paint = [(''line-color'', Str ''rgba(0,0,0,0.1)''), (''line-width'', Num (3 / 10))]\<rparr>"

text \<open>
  The branch of the effect that publishes the feature collection \<open>fc\<close>:
  \<^verbatim>\<open>
  if (map.getSource('slope-cells')) {
      map.getSource('slope-cells').setData(fc);
      map.setPaintProperty('slope-cells', 'fill-color', ['get', 'color']);
  } else {
      map.addSource('slope-cells', { type: 'geojson', data: fc });
      map.addLayer({ id: 'slope-cells', ... });
      map.addLayer({ id: 'slope-cells-outline', ... });
      map.on('click', 'slope-cells', ...);
      map.on('mouseenter', 'slope-cells', ...);
      map.on('mouseleave', 'slope-cells', ...);
  }
  \<close>
\<close>

definition upsert_slope_cells :: "surface \<Rightarrow> feature list \<Rightarrow> string + surface" where
  "upsert_slope_cells m fc =
     (if getSource m ''slope-cells'' \<noteq> None
      then Inr (setPaintProperty (setData m ''slope-cells'' fc)
                  ''slope-cells'' ''fill-color'' (Get ''color''))
      else (case addSource m ''slope-cells'' fc of
              Inl err \<Rightarrow> Inl err
            | Inr m1 \<Rightarrow>
                let m2 = addLayer m1 slope_cells_fill;
                    m3 = addLayer m2 slope_cells_outline;
                    m4 = on m3 ''click'' ''slope-cells'';
                    m5 = on m4 ''mouseenter'' ''slope-cells''
                in Inr (on m5 ''mouseleave'' ''slope-cells'')))"

text \<open>A surface that has nothing registered for the slope cells yet.\<close>

definition no_slope_cells :: "surface \<Rightarrow> bool" where
  "no_slope_cells m \<longleftrightarrow>
     ''slope-cells'' \<notin> set (map fst (sources m)) \<and>
     ''slope-cells'' \<notin> set (map layer_id (layers m)) \<and>
     ''slope-cells-outline'' \<notin> set (map layer_id (layers m)) \<and>
     ''slope-cells'' \<notin> set (map snd (listeners m))"

text \<open>
  The calls of the branch that clears the cells. The library keeps a source that a layer
  still uses; removing a layer leaves the listeners bound to its id in place (only
  \<^verbatim>\<open>map.off\<close> unbinds them, and the effect never calls it).
\<close>

definition getLayer :: "surface \<Rightarrow> string \<Rightarrow> layer option" where
  "getLayer m lid = find (\<lambda>l. layer_id l = lid) (layers m)"

definition removeLayer :: "surface \<Rightarrow> string \<Rightarrow> surface" where
  "removeLayer m lid = m\<lparr>layers := filter (\<lambda>l. layer_id l \<noteq> lid) (layers m)\<rparr>"

definition removeSource :: "surface \<Rightarrow> string \<Rightarrow> surface" where
  "removeSource m sid =
     (if list_ex (\<lambda>l. layer_source l = sid) (layers m) then m
      else m\<lparr>sources := filter (\<lambda>(k, d). k \<noteq> sid) (sources m)\<rparr>)"

text \<open>
  \<^verbatim>\<open>
  if (map.getLayer('slope-cells')) map.removeLayer('slope-cells');
  if (map.getLayer('slope-cells-outline')) map.removeLayer('slope-cells-outline');
  if (map.getSource('slope-cells')) map.removeSource('slope-cells');
  \<close>
\<close>

definition clear_slope_cells :: "surface \<Rightarrow> surface" where
  "clear_slope_cells m =
     (let m1 = (if getLayer m ''slope-cells'' \<noteq> None
                then removeLayer m ''slope-cells'' else m);
          m2 = (if getLayer m1 ''slope-cells-outline'' \<noteq> None
                then removeLayer m1 ''slope-cells-outline'' else m1)
      in if getSource m2 ''slope-cells'' \<noteq> None
         then removeSource m2 ''slope-cells'' else m2)"

text \<open>
  One run of the effect on the map \<open>m\<close> (lines 182 to 282):
  \<^verbatim>\<open>
  if (!map || !loaded) return;
  if (!slopeData) { ...clear...; return; }
  ...
  if (!slopeGrid || !bboxStr) return;
  ...features...
  const fc = { type: 'FeatureCollection', features };
  ...publish fc...
  \<close>
\<close>

definition slope_effect ::
  "surface \<Rightarrow> bool \<Rightarrow> slope_data option \<Rightarrow> range list option \<Rightarrow> string + surface" where
  "slope_effect m loaded slopeData slopeRanges =
     (if \<not> loaded then Inr m
      else (case slopeData of
              None \<Rightarrow> Inr (clear_slope_cells m)
            | Some payload \<Rightarrow>
                (case slope_features payload slopeRanges of
                   None \<Rightarrow> Inr m
                 | Some features \<Rightarrow> upsert_slope_cells m features)))"

text \<open>
  The effect runs again after each render that changed \<^verbatim>\<open>slopeData\<close> or
  \<^verbatim>\<open>slopeRanges\<close>: the runs on a loaded map, one for each pair of the list, in order.
\<close>

fun slope_effects ::
  "surface \<Rightarrow> (slope_data option \<times> range list option) list \<Rightarrow> string + surface" where
  "slope_effects m [] = Inr m"
| "slope_effects m ((slopeData, slopeRanges) # renders) =
     (case slope_effect m True slopeData slopeRanges of
        Inl err \<Rightarrow> Inl err
      | Inr m' \<Rightarrow> slope_effects m' renders)"

section \<open>Drawing the rectangle (MapView.jsx, lines 300 to 360)\<close>

record lngLat =
  lng :: real
  lat :: real

record mouse_event =
  offsetX :: real
  offsetY :: real

text \<open>
  \<^verbatim>\<open>mousedown\<close> stores the unprojected position in \<^verbatim>\<open>drawStartRef.current\<close>. The
  projection of the map is a parameter.
\<close>

definition mousedown :: "(real \<times> real \<Rightarrow> lngLat) \<Rightarrow> mouse_event \<Rightarrow> lngLat option" where
  "mousedown unproject e = Some (unproject (offsetX e, offsetY e))"

text \<open>
  The template string \<^verbatim>\<open>`${minx},${miny},${maxx},${maxy}`\<close>. The conversion of a number
  to its string is the language's own and is a parameter.
\<close>

definition bbox_string :: "(real \<Rightarrow> string) \<Rightarrow> real \<Rightarrow> real \<Rightarrow> real \<Rightarrow> real \<Rightarrow> string" where
  "bbox_string num_str minx miny maxx maxy =
     num_str minx @ '','' @ num_str miny @ '','' @ num_str maxx @ '','' @ num_str maxy"

text \<open>
  \<^verbatim>\<open>mouseup\<close>: the new value of \<^verbatim>\<open>drawStartRef.current\<close> and the string passed to
  \<^verbatim>\<open>onRectangleDrawn\<close>, if any.
  \<^verbatim>\<open>
  if (!drawStartRef.current) return;
  const start = drawStartRef.current;
  const end = map.unproject([e.offsetX, e.offsetY]);
  drawStartRef.current = null;
  const minx = Math.min(start.lng, end.lng); ...
  if (Math.abs(maxx - minx) > 0.001 && Math.abs(maxy - miny) > 0.001) {
      onRectangleDrawn?.(`${minx},${miny},${maxx},${maxy}`);
  }
  \<close>
\<close>

definition mouseup ::
  "(real \<times> real \<Rightarrow> lngLat) \<Rightarrow> (real \<Rightarrow> string) \<Rightarrow> lngLat option \<Rightarrow> mouse_event
     \<Rightarrow> lngLat option \<times> string option" where
  "mouseup unproject num_str drawStart e =
     (case drawStart of
        None \<Rightarrow> (None, None)
      | Some start \<Rightarrow>
          let endp = unproject (offsetX e, offsetY e);
              minx = min (lng start) (lng endp);
              miny = min (lat start) (lat endp);
              maxx = max (lng start) (lng endp);
              maxy = max (lat start) (lat endp)
          in (None,
              if \<bar>maxx - minx\<bar> > 1 / 1000 \<and> \<bar>maxy - miny\<bar> > 1 / 1000
              then Some (bbox_string num_str minx miny maxx maxy)
              else None))"

section \<open>Editing the table of ranges (slope panel, lines 34 to 71)\<close>

text \<open>
  Each handler computes the table it passes to \<^verbatim>\<open>onRangesChange\<close>. \<^verbatim>\<open>parseFloat\<close> and
  the conversion of a number to a string are the language's own and are parameters;
  \<^verbatim>\<open>parseFloat\<close> returns \<open>None\<close> for \<^verbatim>\<open>NaN\<close>. The labels join two bounds with an
  en dash, which the excerpts below write as a hyphen.
\<close>

text \<open>\<^verbatim>\<open>a || b\<close> on numbers: \<^verbatim>\<open>undefined\<close>, \<^verbatim>\<open>NaN\<close> and \<open>0\<close> are falsy.\<close>

definition or_num :: "real option \<Rightarrow> real \<Rightarrow> real" where
  "or_num a b = (case a of None \<Rightarrow> b | Some x \<Rightarrow> if x = 0 then b else x)"

text \<open>
  What an edit does at an index outside the table: reading \<^verbatim>\<open>.max\<close> or \<^verbatim>\<open>.min\<close> of the
  missing entry throws a \<^verbatim>\<open>TypeError\<close>; where the label needs neither, the entry
  written has no \<^verbatim>\<open>max\<close> and no \<^verbatim>\<open>color\<close> and is not a range.
\<close>

datatype edit_error = TypeError | IncompleteEntry

text \<open>
  \<^verbatim>\<open>
  const updated = [...ranges];
  updated[idx] = { ...updated[idx], color: newColor };
  onRangesChange?.(updated);
  \<close>
\<close>

definition handleRangeColorChange :: "range list \<Rightarrow> nat \<Rightarrow> string \<Rightarrow> edit_error + range list" where
  "handleRangeColorChange ranges idx newColor =
     (if idx < length ranges
      then Inr (ranges[idx := (ranges ! idx)\<lparr>color := newColor\<rparr>])
      else Inl IncompleteEntry)"

text \<open>
  \<^verbatim>\<open>
  const updated = [...ranges];
  const num = parseFloat(val) || 0;
  updated[idx] = { ...updated[idx], min: num,
      label: num >= 75 ? `> ${num}%` : `${num} - ${updated[idx].max}%` };
  onRangesChange?.(updated);
  \<close>
\<close>

definition handleRangeMinChange ::
  "(string \<Rightarrow> real option) \<Rightarrow> (real \<Rightarrow> string) \<Rightarrow> range list \<Rightarrow> nat \<Rightarrow> string
     \<Rightarrow> edit_error + range list" where
  "handleRangeMinChange parseFloat num_str ranges idx val =
     (let num = or_num (parseFloat val) 0
      in if idx < length ranges
         then Inr (ranges[idx := (ranges ! idx)
                \<lparr>rmin := num,
                 label := (if num \<ge> 75 then ''> '' @ num_str num @ ''%''
                           else num_str num @ '' '' @ en_dash @ '' '' @
                                num_str (rmax (ranges ! idx)) @ ''%'')\<rparr>])
         else if num \<ge> 75 then Inl IncompleteEntry else Inl TypeError)"

text \<open>
  \<^verbatim>\<open>
  const updated = [...ranges];
  const num = parseFloat(val) || 0;
  updated[idx] = { ...updated[idx], max: num,
      label: updated[idx].min >= 75 ? `> ${updated[idx].min}%` : `${updated[idx].min} - ${num}%` };
  onRangesChange?.(updated);
  \<close>
\<close>

definition handleRangeMaxChange ::
  "(string \<Rightarrow> real option) \<Rightarrow> (real \<Rightarrow> string) \<Rightarrow> range list \<Rightarrow> nat \<Rightarrow> string
     \<Rightarrow> edit_error + range list" where
  "handleRangeMaxChange parseFloat num_str ranges idx val =
     (let num = or_num (parseFloat val) 0
      in if idx < length ranges
         then Inr (ranges[idx := (ranges ! idx)
                \<lparr>rmax := num,
                 label := (if rmin (ranges ! idx) \<ge> 75
                           then ''> '' @ num_str (rmin (ranges ! idx)) @ ''%''
                           else num_str (rmin (ranges ! idx)) @ '' '' @ en_dash @ '' '' @
                                num_str num @ ''%'')\<rparr>])
         else Inl TypeError)"

text \<open>
  \<^verbatim>\<open>
  if (ranges.length <= 2) return;
  const updated = ranges.filter((_, i) => i !== idx);
  onRangesChange?.(updated);
  \<close>
  \<open>None\<close> is the return without a call.
\<close>

definition handleDeleteRange :: "range list \<Rightarrow> nat \<Rightarrow> range list option" where
  "handleDeleteRange ranges idx =
     (if length ranges \<le> 2 then None
      else Some (map snd (filter (\<lambda>(i, rng). i \<noteq> idx) (enumerate 0 ranges))))"

text \<open>
  \<^verbatim>\<open>
  const lastMax = ranges[ranges.length - 1]?.max || 100;
  const newRange = { min: lastMax, max: lastMax + 25, color: '#ff6600',
                     label: `${lastMax} - ${lastMax + 25}%` };
  onRangesChange?.([...ranges, newRange]);
  \<close>
\<close>

definition handleAddRange :: "(real \<Rightarrow> string) \<Rightarrow> range list \<Rightarrow> range list" where
  "handleAddRange num_str ranges =
     (let lastMax = or_num (map_option rmax (last_range ranges)) 100;
          newRange = \<lparr>rmin = lastMax, rmax = lastMax + 25, color = ''#ff6600'',
                      label = num_str lastMax @ '' '' @ en_dash @ '' '' @
                              num_str (lastMax + 25) @ ''%''\<rparr>
      in ranges @ [newRange])"

text \<open>
  The table after a handler has run: the one passed to \<^verbatim>\<open>onRangesChange\<close>
  (\<^verbatim>\<open>setSlopeRanges\<close> in the application), the old one when there was no call.
\<close>

definition table_after :: "range list \<Rightarrow> range list option \<Rightarrow> range list" where
  "table_after ranges change = (case change of None \<Rightarrow> ranges | Some updated \<Rightarrow> updated)"

section \<open>Properties of the classification\<close>

lemma walk_no_match:
  "\<forall>rng \<in> set ranges. \<not> in_range val rng \<Longrightarrow> walk val ranges fc = fc"
  by (induction ranges) (auto simp: in_range_def)

lemma walk_first_match:
  "j < length ranges \<Longrightarrow> in_range val (ranges ! j) \<Longrightarrow>
   \<forall>k<j. \<not> in_range val (ranges ! k) \<Longrightarrow> walk val ranges fc = color (ranges ! j)"
proof (induction ranges arbitrary: j)
  case Nil
  then show ?case by simp
next
  case (Cons rng rest)
  show ?case
  proof (cases j)
    case 0
    with Cons.prems show ?thesis by (simp add: in_range_def)
  next
    case (Suc j')
    from Cons.prems Suc have "\<not> in_range val rng" by auto
    moreover from Cons.prems Suc have "walk val rest fc = color (rest ! j')"
      by (intro Cons.IH) auto
    ultimately show ?thesis using Suc by (auto simp: in_range_def)
  qed
qed

lemma ascending_Cons:
  "ascending (rng # rest) \<longleftrightarrow>
     rmin rng \<le> rmax rng \<and> (\<forall>r \<in> set rest. rmax rng \<le> rmin r \<and> rmax rng \<le> rmax r) \<and>
     ascending rest"
  by (auto simp: ascending_def)

lemma ascending_before:
  "ascending ranges \<Longrightarrow> k < i \<Longrightarrow> i < length ranges \<Longrightarrow> rmax (ranges ! k) \<le> rmin (ranges ! i)"
proof (induction ranges arbitrary: k i)
  case Nil
  then show ?case by simp
next
  case (Cons rng rest)
  from Cons.prems obtain i' where i: "i = Suc i'" by (cases i) auto
  show ?case
  proof (cases k)
    case 0
    from Cons.prems i have "rest ! i' \<in> set rest" by simp
    with Cons.prems(1) 0 i show ?thesis by (simp add: ascending_Cons)
  next
    case (Suc k')
    with Cons.prems i have "rmax (rest ! k') \<le> rmin (rest ! i')"
      by (intro Cons.IH) (auto simp: ascending_Cons)
    with Suc i show ?thesis by simp
  qed
qed

lemma ascending_valid:
  "ascending ranges \<Longrightarrow> i < length ranges \<Longrightarrow> rmin (ranges ! i) \<le> rmax (ranges ! i)"
proof (induction ranges arbitrary: i)
  case Nil
  then show ?case by simp
next
  case (Cons rng rest)
  then show ?case by (cases i) (auto simp: ascending_Cons)
qed

lemma last_range_nth:
  "ranges \<noteq> [] \<Longrightarrow> last_range ranges = Some (ranges ! (length ranges - 1))"
  by (simp add: last_range_def last_conv_nth)

lemma classify_below_last:
  assumes "ranges \<noteq> []" and "val < rmin (last ranges)"
  shows "classify val ranges = walk val ranges default_color"
  using assms by (simp add: classify_def last_range_def)

lemma classify_Nil: "classify val [] = default_color"
  by (simp add: classify_def last_range_def)

text \<open>
  The tables of the program hold colour strings only: the default table does, and every
  handler of the panel keeps it so (the colour handler receives the value of a colour
  input).
\<close>

lemma colored_DEFAULT_RANGES: "colored DEFAULT_RANGES"
  by (simp add: colored_def DEFAULT_RANGES_def)

lemma colored_handleAddRange: "colored ranges \<Longrightarrow> colored (handleAddRange num_str ranges)"
  by (simp add: colored_def handleAddRange_def Let_def)

lemma colored_handleDeleteRange:
  "colored ranges \<Longrightarrow> colored (table_after ranges (handleDeleteRange ranges idx))"
  by (auto simp: colored_def handleDeleteRange_def table_after_def list_all_iff
      in_set_enumerate_eq)

lemma colored_update:
  "colored ranges \<Longrightarrow> color rng \<noteq> [] \<Longrightarrow> colored (ranges[idx := rng])"
  by (auto simp: colored_def list_all_iff dest: set_update_subset_insert [THEN subsetD])

lemma colored_handleRangeMinChange:
  assumes "colored ranges"
    and "handleRangeMinChange parseFloat num_str ranges idx val = Inr u"
  shows "colored u"
proof -
  from assms(2) obtain rng where idx: "idx < length ranges"
    and u: "u = ranges[idx := rng]" and c: "color rng = color (ranges ! idx)"
    by (auto simp: handleRangeMinChange_def Let_def split: if_splits)
  from assms(1) idx have "color (ranges ! idx) \<noteq> []"
    by (simp add: colored_def list_all_length)
  with c show ?thesis unfolding u by (intro colored_update assms(1)) simp
qed

lemma colored_handleRangeMaxChange:
  assumes "colored ranges"
    and "handleRangeMaxChange parseFloat num_str ranges idx val = Inr u"
  shows "colored u"
proof -
  from assms(2) obtain rng where idx: "idx < length ranges"
    and u: "u = ranges[idx := rng]" and c: "color rng = color (ranges ! idx)"
    by (auto simp: handleRangeMaxChange_def Let_def split: if_splits)
  from assms(1) idx have "color (ranges ! idx) \<noteq> []"
    by (simp add: colored_def list_all_length)
  with c show ?thesis unfolding u by (intro colored_update assms(1)) simp
qed

lemma colored_handleRangeColorChange:
  assumes "colored ranges" and "newColor \<noteq> []"
    and "handleRangeColorChange ranges idx newColor = Inr u"
  shows "colored u"
proof -
  from assms(3) have u: "u = ranges[idx := (ranges ! idx)\<lparr>color := newColor\<rparr>]"
    by (auto simp: handleRangeColorChange_def split: if_splits)
  show ?thesis unfolding u using assms(2) by (intro colored_update assms(1)) simp
qed

text \<open>
  Claim C1. For every non-empty table of ranges, each with its colour string, and every
  value at or above the minimum of the last range, the classification is the colour of
  the last range: whatever the
  maximum of the last range is, and also when the walk had found an earlier range
  containing the value, since the override runs after the walk in every case.
\<close>

theorem classify_catch_all:
  assumes "colored ranges" and "ranges \<noteq> []" and "val \<ge> rmin (last ranges)"
  shows "classify val ranges = color (last ranges)"
proof -
  from assms(1,2) have "color (last ranges) \<noteq> []"
    by (simp add: colored_def list_all_iff)
  with assms(2,3) show ?thesis
    by (simp add: classify_def last_range_def or_string_def)
qed

text \<open>
  The value 70 lies in the first range and above the maximum of the last one; it takes
  the colour of the last one. In the default table 5000 lies above every maximum and
  takes the colour of the last range.
\<close>

theorem classify_catch_all_witness:
  "colored [\<lparr>rmin = 0, rmax = 100, color = ''#38a800'', label = ''low''\<rparr>,
            \<lparr>rmin = 50, rmax = 60, color = ''#ff0000'', label = ''high''\<rparr>] \<and>
   [\<lparr>rmin = 0, rmax = 100, color = ''#38a800'', label = ''low''\<rparr>,
    \<lparr>rmin = 50, rmax = 60, color = ''#ff0000'', label = ''high''\<rparr>] \<noteq> [] \<and>
   (70::real) \<ge> rmin (last [\<lparr>rmin = 0, rmax = 100, color = ''#38a800'', label = ''low''\<rparr>,
    \<lparr>rmin = 50, rmax = 60, color = ''#ff0000'', label = ''high''\<rparr>]) \<and>
   in_range 70 \<lparr>rmin = 0, rmax = 100, color = ''#38a800'', label = ''low''\<rparr> \<and>
   \<not> in_range 70 \<lparr>rmin = 50, rmax = 60, color = ''#ff0000'', label = ''high''\<rparr> \<and>
   classify 70 [\<lparr>rmin = 0, rmax = 100, color = ''#38a800'', label = ''low''\<rparr>,
    \<lparr>rmin = 50, rmax = 60, color = ''#ff0000'', label = ''high''\<rparr>] = ''#ff0000'' \<and>
   colored DEFAULT_RANGES \<and> classify 5000 DEFAULT_RANGES = ''#ff0000''"
  using classify_catch_all [of "[\<lparr>rmin = 0, rmax = 100, color = ''#38a800'', label = ''low''\<rparr>,
    \<lparr>rmin = 50, rmax = 60, color = ''#ff0000'', label = ''high''\<rparr>]" 70]
    classify_catch_all [of DEFAULT_RANGES 5000]
  by (simp add: in_range_def colored_def DEFAULT_RANGES_def)

text \<open>
  Claim C5. In a table sorted ascending, a value inside the half-open interval of a range
  that is not the last one is classified to the colour of that range. In any table, for
  a value below the minimum of the last range, the first range in list order whose
  interval contains the value gives the colour, so that list order decides between
  overlapping ranges.
\<close>

theorem classify_sorted_first_match:
  "(ascending ranges \<and> Suc i < length ranges \<and>
    rmin (ranges ! i) \<le> val \<and> val < rmax (ranges ! i)
      \<longrightarrow> classify val ranges = color (ranges ! i)) \<and>
   (j < length ranges \<and> in_range val (ranges ! j) \<and> (\<forall>k<j. \<not> in_range val (ranges ! k)) \<and>
    val < rmin (last ranges)
      \<longrightarrow> classify val ranges = color (ranges ! j))"
proof (intro conjI impI)
  assume a: "j < length ranges \<and> in_range val (ranges ! j) \<and>
    (\<forall>k<j. \<not> in_range val (ranges ! k)) \<and> val < rmin (last ranges)"
  then have "ranges \<noteq> []" by auto
  with a have "classify val ranges = walk val ranges default_color"
    by (simp add: classify_below_last)
  also from a have "\<dots> = color (ranges ! j)" by (simp add: walk_first_match)
  finally show "classify val ranges = color (ranges ! j)" .
next
  assume a: "ascending ranges \<and> Suc i < length ranges \<and>
    rmin (ranges ! i) \<le> val \<and> val < rmax (ranges ! i)"
  then have ne: "ranges \<noteq> []" and i: "i < length ranges" by auto
  have lst: "last ranges = ranges ! (length ranges - 1)" using ne by (simp add: last_conv_nth)
  from a have "rmax (ranges ! i) \<le> rmin (ranges ! (length ranges - 1))"
    by (intro ascending_before) auto
  with a lst have below: "val < rmin (last ranges)" by simp
  have earlier: "\<forall>k<i. \<not> in_range val (ranges ! k)"
  proof (intro allI impI)
    fix k assume "k < i"
    with a i have "rmax (ranges ! k) \<le> rmin (ranges ! i)" by (intro ascending_before) auto
    with a show "\<not> in_range val (ranges ! k)" by (simp add: in_range_def)
  qed
  from ne below have "classify val ranges = walk val ranges default_color"
    by (simp add: classify_below_last)
  also from a i earlier have "\<dots> = color (ranges ! i)"
    by (intro walk_first_match) (auto simp: in_range_def)
  finally show "classify val ranges = color (ranges ! i)" .
qed

text \<open>
  In the default table the value 10 falls in the third range; in a table of three
  overlapping ranges the value 6 lies in the first two and takes the colour of the first.
\<close>

theorem classify_sorted_first_match_witness:
  "ascending DEFAULT_RANGES \<and> Suc 2 < length DEFAULT_RANGES \<and>
   rmin (DEFAULT_RANGES ! 2) \<le> 10 \<and> (10::real) < rmax (DEFAULT_RANGES ! 2) \<and>
   classify 10 DEFAULT_RANGES = ''#a8a800'' \<and>
   in_range 6 \<lparr>rmin = 0, rmax = 10, color = ''#38a800'', label = ''low''\<rparr> \<and>
   in_range 6 \<lparr>rmin = 5, rmax = 20, color = ''#a8a800'', label = ''mid''\<rparr> \<and>
   classify 6 [\<lparr>rmin = 0, rmax = 10, color = ''#38a800'', label = ''low''\<rparr>,
               \<lparr>rmin = 5, rmax = 20, color = ''#a8a800'', label = ''mid''\<rparr>,
               \<lparr>rmin = 8, rmax = 30, color = ''#ff0000'', label = ''high''\<rparr>] = ''#38a800''"
  using classify_sorted_first_match [of DEFAULT_RANGES 2 10 0]
        classify_sorted_first_match [of
          "[\<lparr>rmin = 0, rmax = 10, color = ''#38a800'', label = ''low''\<rparr>,
            \<lparr>rmin = 5, rmax = 20, color = ''#a8a800'', label = ''mid''\<rparr>,
            \<lparr>rmin = 8, rmax = 30, color = ''#ff0000'', label = ''high''\<rparr>]" 0 6 0]
  by (simp add: ascending_def DEFAULT_RANGES_def in_range_def)

section \<open>Properties of the tessellation\<close>

lemma row_loop_colors:
  "f \<in> set (row_loop minx miny dx dy ranges r c vals) \<Longrightarrow>
   \<exists>val. prop_color f = classify val ranges"
  by (induction vals arbitrary: c) (auto simp: cell_feature_def Let_def)

lemma grid_loop_colors:
  "f \<in> set (grid_loop minx miny dx dy ranges r rows) \<Longrightarrow>
   \<exists>val. prop_color f = classify val ranges"
  by (induction rows arbitrary: r) (auto dest: row_loop_colors)

lemma slope_features_colors:
  "slope_features slopeData slopeRanges = Some fs \<Longrightarrow> f \<in> set fs \<Longrightarrow>
   \<exists>val. prop_color f = classify val (ranges_or_empty slopeRanges)"
  by (auto simp: slope_features_def Let_def split: option.splits dest: grid_loop_colors)

lemma length_row_loop [simp]:
  "length (row_loop minx miny dx dy ranges r c vals) = length vals"
  by (induction vals arbitrary: c) auto

lemma length_grid_loop [simp]:
  "length (grid_loop minx miny dx dy ranges r rows) = sum_list (map length rows)"
  by (induction rows arbitrary: r) auto

lemma nth_row_loop:
  "c < length vals \<Longrightarrow>
   row_loop minx miny dx dy ranges r c0 vals ! c =
   cell_feature minx miny dx dy ranges r (c0 + c) (vals ! c)"
proof (induction vals arbitrary: c c0)
  case Nil
  then show ?case by simp
next
  case (Cons v vals)
  then show ?case by (cases c) auto
qed

lemma nth_grid_loop:
  "r < length rows \<Longrightarrow> c < length (rows ! r) \<Longrightarrow>
   grid_loop minx miny dx dy ranges r0 rows ! (cell_index rows r c) =
   cell_feature minx miny dx dy ranges (r0 + r) c (rows ! r ! c)"
proof (induction rows arbitrary: r r0)
  case Nil
  then show ?case by simp
next
  case (Cons row rows)
  show ?case
  proof (cases r)
    case 0
    with Cons.prems show ?thesis
      by (simp add: cell_index_def nth_append nth_row_loop)
  next
    case (Suc r')
    with Cons.prems have "grid_loop minx miny dx dy ranges (Suc r0) rows ! (cell_index rows r' c) =
        cell_feature minx miny dx dy ranges (Suc r0 + r') c (rows ! r' ! c)"
      by (intro Cons.IH) auto
    with Suc show ?thesis
      by (simp add: cell_index_def nth_append)
  qed
qed

text \<open>
  Claim C6. With an empty or a missing table of ranges every value is classified to the
  default colour \<^verbatim>\<open>#888888\<close>; the tessellation of a payload with a grid and a bounding
  box then completes, with one feature for each cell, all of the default colour.
\<close>

theorem classify_empty_table:
  "classify val (ranges_or_empty None) = ''#888888'' \<and>
   classify val (ranges_or_empty (Some [])) = ''#888888'' \<and>
   ((slopeRanges = None \<or> slopeRanges = Some []) \<and>
    slopes_percent slopeData = Some slopeGrid \<and> bbox slopeData = Some box
      \<longrightarrow> (\<exists>fs. slope_features slopeData slopeRanges = Some fs \<and>
                 length fs = sum_list (map length slopeGrid) \<and>
                 (\<forall>f \<in> set fs. prop_color f = ''#888888'')))"
proof (intro conjI impI)
  show "classify val (ranges_or_empty None) = ''#888888''"
    by (simp add: ranges_or_empty_def classify_Nil default_color_def)
  show "classify val (ranges_or_empty (Some [])) = ''#888888''"
    by (simp add: ranges_or_empty_def classify_Nil default_color_def)
next
  assume a: "(slopeRanges = None \<or> slopeRanges = Some []) \<and>
    slopes_percent slopeData = Some slopeGrid \<and> bbox slopeData = Some box"
  obtain minx miny maxx maxy where box: "box = (minx, miny, maxx, maxy)"
    by (cases box) auto
  from a have empty: "ranges_or_empty slopeRanges = []"
    by (auto simp: ranges_or_empty_def)
  from a box obtain fs where fs: "slope_features slopeData slopeRanges = Some fs"
    and len: "length fs = sum_list (map length slopeGrid)"
    by (simp add: slope_features_def or_grid_def Let_def)
  have "\<forall>f \<in> set fs. prop_color f = ''#888888''"
  proof
    fix f assume "f \<in> set fs"
    with fs obtain v where "prop_color f = classify v (ranges_or_empty slopeRanges)"
      using slope_features_colors by blast
    with empty show "prop_color f = ''#888888''"
      by (simp add: classify_Nil default_color_def)
  qed
  with fs len show "\<exists>fs. slope_features slopeData slopeRanges = Some fs \<and>
      length fs = sum_list (map length slopeGrid) \<and> (\<forall>f \<in> set fs. prop_color f = ''#888888'')"
    by blast
qed

text \<open>A grid of two rows with a missing table: three cells, all of the default colour.\<close>

theorem classify_empty_table_witness:
  "slopes_percent \<lparr>slopes_percent = Some [[5, 80], [12]], slopes = None,
                    bbox = Some (0, 0, 2, 2), grid_size = Some 2\<rparr> = Some [[5, 80], [12]] \<and>
   (\<exists>fs. slope_features \<lparr>slopes_percent = Some [[5, 80], [12]], slopes = None,
                          bbox = Some (0, 0, 2, 2), grid_size = Some 2\<rparr> None = Some fs \<and>
          length fs = 3 \<and> map prop_color fs = [''#888888'', ''#888888'', ''#888888''])"
  using classify_empty_table [of 0 None
          "\<lparr>slopes_percent = Some [[5, 80], [12]], slopes = None,
            bbox = Some (0, 0, 2, 2), grid_size = Some 2\<rparr>" "[[5, 80], [12]]" "(0, 0, 2, 2)"]
  by (simp add: slope_features_def or_grid_def or_size_def Let_def cell_feature_def
        ranges_or_empty_def classify_def last_range_def default_color_def)

lemma round1_tenths: "\<exists>k::int. round1 val = of_int k / 10"
  by (auto simp: round1_def)

lemma round1_close: "\<bar>round1 val - val\<bar> \<le> 1 / 20"
proof -
  define k where "k = \<lfloor>val * 10 + 1 / 2\<rfloor>"
  have "of_int k \<le> val * 10 + 1 / 2" and "val * 10 + 1 / 2 < of_int k + 1"
    unfolding k_def by linarith+
  then have "of_int k / 10 - val \<le> 1 / 20" and "val - of_int k / 10 \<le> 1 / 20"
    by linarith+
  then have "\<bar>of_int k / 10 - val\<bar> \<le> 1 / 20" by (intro abs_leI) linarith+
  then show ?thesis by (simp add: round1_def k_def)
qed

lemma cell_index_square:
  "\<forall>row \<in> set slopeGrid. length row = n \<Longrightarrow> r \<le> length slopeGrid \<Longrightarrow>
   cell_index slopeGrid r c = r * n + c"
proof -
  assume a: "\<forall>row \<in> set slopeGrid. length row = n" and r: "r \<le> length slopeGrid"
  have "map length (take r slopeGrid) = replicate r n"
  proof (rule nth_equalityI)
    show "length (map length (take r slopeGrid)) = length (replicate r n)" using r by simp
  next
    fix i assume "i < length (map length (take r slopeGrid))"
    then have i: "i < r" "i < length slopeGrid" using r by auto
    then have "slopeGrid ! i \<in> set slopeGrid" by simp
    with a i show "map length (take r slopeGrid) ! i = replicate r n ! i" by simp
  qed
  then show ?thesis by (simp add: cell_index_def sum_list_replicate)
qed

lemma slope_features_Some:
  assumes "or_grid (slopes_percent slopeData) (slopes slopeData) = Some slopeGrid"
    and "bbox slopeData = Some (minx, miny, maxx, maxy)"
  shows "slope_features slopeData slopeRanges =
    Some (grid_loop minx miny
           ((maxx - minx) / real (or_size (grid_size slopeData) (length slopeGrid)))
           ((maxy - miny) / real (or_size (grid_size slopeData) (length slopeGrid)))
           (ranges_or_empty slopeRanges) 0 slopeGrid)"
  using assms by (simp add: slope_features_def Let_def)

text \<open>
  Claim C7. Whatever the lengths of the rows, the tessellation of a payload with a grid
  and a bounding box completes: it yields one feature for each cell that is present
  (the sum of the row lengths, so a short row contributes only the cells it has), and
  the feature of the cell at row \<open>r\<close>, column \<open>c\<close> stands at the position of that cell
  among the present ones.
\<close>

theorem tessellate_ragged_rows:
  assumes "or_grid (slopes_percent slopeData) (slopes slopeData) = Some slopeGrid"
    and "bbox slopeData = Some (minx, miny, maxx, maxy)"
  shows "\<exists>fs. slope_features slopeData slopeRanges = Some fs \<and>
     length fs = sum_list (map length slopeGrid) \<and>
     (\<forall>r < length slopeGrid. \<forall>c < length (slopeGrid ! r).
        fs ! cell_index slopeGrid r c =
        cell_feature minx miny
          ((maxx - minx) / real (or_size (grid_size slopeData) (length slopeGrid)))
          ((maxy - miny) / real (or_size (grid_size slopeData) (length slopeGrid)))
          (ranges_or_empty slopeRanges) r c (slopeGrid ! r ! c))"
  using nth_grid_loop [where ?r0.0 = 0 and rows = slopeGrid]
  by (simp add: slope_features_Some [OF assms])

text \<open>
  Claim C2. For a grid of \<open>n\<close> rows of \<open>n\<close> values with a valid bounding box, the
  tessellation yields \<open>n * n\<close> features. The feature of row \<open>r\<close>, column \<open>c\<close> is the
  closed ring of five points from \<open>(x0, y0)\<close> with \<open>x0 = minx + c * dx\<close>,
  \<open>y0 = miny + r * dy\<close>, \<open>dx = (maxx - minx) / n\<close>, \<open>dy = (maxy - miny) / n\<close>; its slope is
  the value rounded to one decimal (a multiple of a tenth, at most a twentieth away) and
  its colour is the classification of the value. The lower left corner of the first cell
  is \<open>(minx, miny)\<close> and the upper right corner of the last cell is \<open>(maxx, maxy)\<close>
  (exactly, in real arithmetic).
\<close>

theorem tessellate_square_grid:
  assumes grid: "or_grid (slopes_percent slopeData) (slopes slopeData) = Some slopeGrid"
    and box: "bbox slopeData = Some (minx, miny, maxx, maxy)"
    and valid: "minx < maxx \<and> miny < maxy"
    and rows: "length slopeGrid = n"
    and cols: "\<forall>row \<in> set slopeGrid. length row = n"
    and size: "grid_size slopeData = None \<or> grid_size slopeData = Some n"
  shows "\<exists>fs. slope_features slopeData slopeRanges = Some fs \<and>
     length fs = n * n \<and>
     (\<forall>r < n. \<forall>c < n.
        coordinates (fs ! (r * n + c)) =
          [(minx + real c * ((maxx - minx) / real n), miny + real r * ((maxy - miny) / real n)),
           (minx + real c * ((maxx - minx) / real n) + (maxx - minx) / real n,
            miny + real r * ((maxy - miny) / real n)),
           (minx + real c * ((maxx - minx) / real n) + (maxx - minx) / real n,
            miny + real r * ((maxy - miny) / real n) + (maxy - miny) / real n),
           (minx + real c * ((maxx - minx) / real n),
            miny + real r * ((maxy - miny) / real n) + (maxy - miny) / real n),
           (minx + real c * ((maxx - minx) / real n), miny + real r * ((maxy - miny) / real n))] \<and>
        prop_slope (fs ! (r * n + c)) = round1 (slopeGrid ! r ! c) \<and>
        (\<exists>k::int. prop_slope (fs ! (r * n + c)) = of_int k / 10) \<and>
        \<bar>prop_slope (fs ! (r * n + c)) - slopeGrid ! r ! c\<bar> \<le> 1 / 20 \<and>
        prop_color (fs ! (r * n + c)) =
          classify (slopeGrid ! r ! c) (ranges_or_empty slopeRanges)) \<and>
     (0 < n \<longrightarrow> coordinates (fs ! 0) ! 0 = (minx, miny) \<and>
                coordinates (fs ! (n * n - 1)) ! 2 = (maxx, maxy))"
proof -
  let ?dx = "(maxx - minx) / real n" and ?dy = "(maxy - miny) / real n"
  let ?fs = "grid_loop minx miny ?dx ?dy (ranges_or_empty slopeRanges) 0 slopeGrid"
  have n: "or_size (grid_size slopeData) (length slopeGrid) = n"
    using size rows by (auto simp: or_size_def)
  have fs: "slope_features slopeData slopeRanges = Some ?fs"
    using slope_features_Some [OF grid box] n by simp
  have "map length slopeGrid = replicate n n"
    using rows cols by (intro nth_equalityI) auto
  then have len: "length ?fs = n * n" by (simp add: sum_list_replicate)
  have cell: "?fs ! (r * n + c) =
      cell_feature minx miny ?dx ?dy (ranges_or_empty slopeRanges) r c (slopeGrid ! r ! c)"
    if "r < n" "c < n" for r c
  proof -
    from that rows have "slopeGrid ! r \<in> set slopeGrid" by simp
    with cols that have "c < length (slopeGrid ! r)" by simp
    with that rows have "?fs ! cell_index slopeGrid r c =
      cell_feature minx miny ?dx ?dy (ranges_or_empty slopeRanges) (0 + r) c (slopeGrid ! r ! c)"
      by (intro nth_grid_loop) auto
    moreover have "cell_index slopeGrid r c = r * n + c"
      using cols that rows by (intro cell_index_square) auto
    ultimately show ?thesis by simp
  qed
  have corners: "coordinates (?fs ! 0) ! 0 = (minx, miny) \<and>
      coordinates (?fs ! (n * n - 1)) ! 2 = (maxx, maxy)" if "0 < n"
  proof -
    from that have last_idx: "n * n - 1 = (n - 1) * n + (n - 1)"
      by (cases n) auto
    from that have rn: "real (n - Suc 0) = real n - 1" by (cases n) auto
    from that have nz: "real n \<noteq> 0" by simp
    have x: "minx + (real n - 1) * ((maxx - minx) / real n) + (maxx - minx) / real n = maxx"
      using nz by (simp add: field_simps)
    have y: "miny + (real n - 1) * ((maxy - miny) / real n) + (maxy - miny) / real n = maxy"
      using nz by (simp add: field_simps)
    have "?fs ! 0 = cell_feature minx miny ?dx ?dy (ranges_or_empty slopeRanges) 0 0 (slopeGrid ! 0 ! 0)"
      using cell [of 0 0] that by simp
    moreover have "?fs ! (n * n - 1) = cell_feature minx miny ?dx ?dy (ranges_or_empty slopeRanges)
        (n - 1) (n - 1) (slopeGrid ! (n - 1) ! (n - 1))"
      using cell [of "n - 1" "n - 1"] that last_idx by simp
    ultimately show ?thesis
      using x y by (simp add: cell_feature_def Let_def rn)
  qed
  have percell: "\<forall>r < n. \<forall>c < n.
        coordinates (?fs ! (r * n + c)) =
          [(minx + real c * ?dx, miny + real r * ?dy),
           (minx + real c * ?dx + ?dx, miny + real r * ?dy),
           (minx + real c * ?dx + ?dx, miny + real r * ?dy + ?dy),
           (minx + real c * ?dx, miny + real r * ?dy + ?dy),
           (minx + real c * ?dx, miny + real r * ?dy)] \<and>
        prop_slope (?fs ! (r * n + c)) = round1 (slopeGrid ! r ! c) \<and>
        (\<exists>k::int. prop_slope (?fs ! (r * n + c)) = of_int k / 10) \<and>
        \<bar>prop_slope (?fs ! (r * n + c)) - slopeGrid ! r ! c\<bar> \<le> 1 / 20 \<and>
        prop_color (?fs ! (r * n + c)) =
          classify (slopeGrid ! r ! c) (ranges_or_empty slopeRanges)"
  proof (intro allI impI)
    fix r c assume rc: "r < n" "c < n"
    note f = cell [OF rc]
    have s: "prop_slope (?fs ! (r * n + c)) = round1 (slopeGrid ! r ! c)"
      unfolding f by (simp add: cell_feature_def Let_def)
    show "coordinates (?fs ! (r * n + c)) =
          [(minx + real c * ?dx, miny + real r * ?dy),
           (minx + real c * ?dx + ?dx, miny + real r * ?dy),
           (minx + real c * ?dx + ?dx, miny + real r * ?dy + ?dy),
           (minx + real c * ?dx, miny + real r * ?dy + ?dy),
           (minx + real c * ?dx, miny + real r * ?dy)] \<and>
        prop_slope (?fs ! (r * n + c)) = round1 (slopeGrid ! r ! c) \<and>
        (\<exists>k::int. prop_slope (?fs ! (r * n + c)) = of_int k / 10) \<and>
        \<bar>prop_slope (?fs ! (r * n + c)) - slopeGrid ! r ! c\<bar> \<le> 1 / 20 \<and>
        prop_color (?fs ! (r * n + c)) =
          classify (slopeGrid ! r ! c) (ranges_or_empty slopeRanges)"
    proof (intro conjI)
      show "\<exists>k::int. prop_slope (?fs ! (r * n + c)) = of_int k / 10"
        unfolding s by (rule round1_tenths)
      show "\<bar>prop_slope (?fs ! (r * n + c)) - slopeGrid ! r ! c\<bar> \<le> 1 / 20"
        unfolding s by (rule round1_close)
    qed (simp_all add: f cell_feature_def Let_def)
  qed
  from corners have corners': "0 < n \<longrightarrow> coordinates (?fs ! 0) ! 0 = (minx, miny) \<and>
      coordinates (?fs ! (n * n - 1)) ! 2 = (maxx, maxy)" by blast
  show ?thesis
    by (intro exI [of _ ?fs] conjI) (rule fs len percell corners')+
qed


text \<open>A grid of two rows of two values over the box \<open>(0, 0, 2, 4)\<close>.\<close>

theorem tessellate_square_grid_witness:
  "or_grid (slopes_percent \<lparr>slopes_percent = Some [[1, 5], [10, 80]], slopes = None,
                             bbox = Some (0, 0, 2, 4), grid_size = Some 2\<rparr>) None
     = Some [[1, 5], [10, 80]] \<and>
   (0::real) < 2 \<and> (0::real) < 4 \<and> length [[1, 5], [10, 80::real]] = 2 \<and>
   map length [[1, 5], [10, 80::real]] = [2, 2] \<and>
   (\<exists>fs. slope_features \<lparr>slopes_percent = Some [[1, 5], [10, 80]], slopes = None,
                          bbox = Some (0, 0, 2, 4), grid_size = Some 2\<rparr>
            (Some DEFAULT_RANGES) = Some fs \<and>
          length fs = 4 \<and>
          coordinates (fs ! 0) ! 0 = (0, 0) \<and>
          coordinates (fs ! 3) ! 2 = (2, 4) \<and>
          coordinates (fs ! 1) = [(1, 0), (2, 0), (2, 2), (1, 2), (1, 0)] \<and>
          prop_color (fs ! 3) = ''#ff0000'')"
  using tessellate_square_grid [of
          "\<lparr>slopes_percent = Some [[1, 5], [10, 80]], slopes = None,
            bbox = Some (0, 0, 2, 4), grid_size = Some 2\<rparr>"
          "[[1, 5], [10, 80]]" 0 0 2 4 2 "Some DEFAULT_RANGES"]
  by (simp add: or_grid_def slope_features_def or_size_def cell_feature_def Let_def
        ranges_or_empty_def classify_def last_range_def or_string_def DEFAULT_RANGES_def
        numeral_3_eq_3)

text \<open>Rows of lengths 3, 0 and 1: four features, the last one for row 2, column 0.\<close>

theorem tessellate_ragged_rows_witness:
  "or_grid (slopes_percent \<lparr>slopes_percent = Some [[1, 5, 30], [], [80]], slopes = None,
                             bbox = Some (0, 0, 3, 3), grid_size = Some 3\<rparr>) None
     = Some [[1, 5, 30], [], [80]] \<and>
   (\<exists>fs. slope_features \<lparr>slopes_percent = Some [[1, 5, 30], [], [80]], slopes = None,
                          bbox = Some (0, 0, 3, 3), grid_size = Some 3\<rparr>
            (Some DEFAULT_RANGES) = Some fs \<and>
          length fs = 4 \<and>
          cell_index [[1, 5, 30], [], [80]] 2 0 = 3 \<and>
          fs ! 3 = cell_feature 0 0 1 1 DEFAULT_RANGES 2 0 80)"
  using tessellate_ragged_rows [of
          "\<lparr>slopes_percent = Some [[1, 5, 30], [], [80]], slopes = None,
            bbox = Some (0, 0, 3, 3), grid_size = Some 3\<rparr>"
          "[[1, 5, 30], [], [80]]" 0 0 3 3 "Some DEFAULT_RANGES"]
  by (simp add: or_grid_def slope_features_def or_size_def Let_def
        ranges_or_empty_def cell_index_def numeral_3_eq_3 numeral_2_eq_2)

section \<open>Properties of the rectangle drawing\<close>

text \<open>
  Claim C3. A gesture started at the point \<open>s\<close> and released at the point \<open>p\<close> clears
  the session in every case. It passes a bounding box to \<^verbatim>\<open>onRectangleDrawn\<close> exactly
  when both \<open>|p.x - s.x|\<close> and \<open>|p.y - s.y|\<close> exceed 0.001; the box is then the
  comma-joined string of \<open>min(s.x, p.x)\<close>, \<open>min(s.y, p.y)\<close>, \<open>max(s.x, p.x)\<close>,
  \<open>max(s.y, p.y)\<close>, each converted as it is, and its minima are strictly below its
  maxima. Otherwise nothing is passed on.
\<close>

theorem mouseup_commit:
  assumes "mousedown unproject e0 = Some s" and "unproject (offsetX e, offsetY e) = p"
  shows "mouseup unproject num_str (mousedown unproject e0) e =
           (None,
            if \<bar>lng p - lng s\<bar> > 1 / 1000 \<and> \<bar>lat p - lat s\<bar> > 1 / 1000
            then Some (num_str (min (lng s) (lng p)) @ '','' @ num_str (min (lat s) (lat p)) @ '','' @
                       num_str (max (lng s) (lng p)) @ '','' @ num_str (max (lat s) (lat p)))
            else None) \<and>
         (\<bar>lng p - lng s\<bar> > 1 / 1000 \<and> \<bar>lat p - lat s\<bar> > 1 / 1000
            \<longrightarrow> min (lng s) (lng p) < max (lng s) (lng p) \<and>
                min (lat s) (lat p) < max (lat s) (lat p))"
proof -
  have x: "\<bar>max (lng s) (lng p) - min (lng s) (lng p)\<bar> = \<bar>lng p - lng s\<bar>"
    by (simp add: max_def min_def)
  have y: "\<bar>max (lat s) (lat p) - min (lat s) (lat p)\<bar> = \<bar>lat p - lat s\<bar>"
    by (simp add: max_def min_def)
  have "mouseup unproject num_str (Some s) e =
           (None,
            if \<bar>lng p - lng s\<bar> > 1 / 1000 \<and> \<bar>lat p - lat s\<bar> > 1 / 1000
            then Some (num_str (min (lng s) (lng p)) @ '','' @ num_str (min (lat s) (lat p)) @ '','' @
                       num_str (max (lng s) (lng p)) @ '','' @ num_str (max (lat s) (lat p)))
            else None)"
    unfolding mouseup_def Let_def assms(2) option.case x y bbox_string_def by (rule refl)
  moreover have "\<bar>lng p - lng s\<bar> > 1 / 1000 \<and> \<bar>lat p - lat s\<bar> > 1 / 1000
            \<longrightarrow> min (lng s) (lng p) < max (lng s) (lng p) \<and>
                min (lat s) (lat p) < max (lat s) (lat p)"
    by (auto simp: max_def min_def)
  ultimately show ?thesis using assms(1) by simp
qed

text \<open>
  From \<open>(-70, -27)\<close> to \<open>(-69.5, -26.5)\<close> the box is committed; from \<open>(-70, -27)\<close> to
  \<open>(-70.0005, -27.0003)\<close> nothing is.
\<close>

theorem mouseup_commit_witness:
  "mouseup (\<lambda>(x, y). \<lparr>lng = x, lat = y\<rparr>)
      (\<lambda>r. if r = - 70 then ''-70'' else if r = - 27 then ''-27''
            else if r = - 139 / 2 then ''-69.5'' else ''-26.5'')
      (mousedown (\<lambda>(x, y). \<lparr>lng = x, lat = y\<rparr>) \<lparr>offsetX = - 70, offsetY = - 27\<rparr>)
      \<lparr>offsetX = - 139 / 2, offsetY = - 53 / 2\<rparr>
     = (None, Some ''-70,-27,-69.5,-26.5'') \<and>
   mouseup (\<lambda>(x, y). \<lparr>lng = x, lat = y\<rparr>) (\<lambda>r. ''0'')
      (mousedown (\<lambda>(x, y). \<lparr>lng = x, lat = y\<rparr>) \<lparr>offsetX = - 70, offsetY = - 27\<rparr>)
      \<lparr>offsetX = - 700005 / 10000, offsetY = - 270003 / 10000\<rparr>
     = (None, None)"
  using mouseup_commit [of "\<lambda>(x, y). \<lparr>lng = x, lat = y\<rparr>" "\<lparr>offsetX = - 70, offsetY = - 27\<rparr>"
          "\<lparr>lng = - 70, lat = - 27\<rparr>" "\<lparr>offsetX = - 139 / 2, offsetY = - 53 / 2\<rparr>"
          "\<lparr>lng = - 139 / 2, lat = - 53 / 2\<rparr>"
          "\<lambda>r. if r = - 70 then ''-70'' else if r = - 27 then ''-27''
            else if r = - 139 / 2 then ''-69.5'' else ''-26.5''"]
        mouseup_commit [of "\<lambda>(x, y). \<lparr>lng = x, lat = y\<rparr>" "\<lparr>offsetX = - 70, offsetY = - 27\<rparr>"
          "\<lparr>lng = - 70, lat = - 27\<rparr>" "\<lparr>offsetX = - 700005 / 10000, offsetY = - 270003 / 10000\<rparr>"
          "\<lparr>lng = - 700005 / 10000, lat = - 270003 / 10000\<rparr>" "\<lambda>r. ''0''"]
  by (simp add: mousedown_def)

section \<open>Properties of the publication on the map\<close>

lemma upsert_create:
  assumes "no_slope_cells m"
  shows "upsert_slope_cells m fc =
    Inr \<lparr>sources = sources m @ [(''slope-cells'', fc)],
         layers = layers m @ [slope_cells_fill, slope_cells_outline],
         listeners = listeners m @ [(''click'', ''slope-cells''), (''mouseenter'', ''slope-cells''),
                                    (''mouseleave'', ''slope-cells'')]\<rparr>"
proof -
  from assms have "map_of (sources m) ''slope-cells'' = None"
    by (simp add: no_slope_cells_def map_of_eq_None_iff)
  then show ?thesis
    by (simp add: upsert_slope_cells_def getSource_def addSource_def addLayer_def on_def Let_def)
qed

lemma upsert_update:
  assumes "getSource m ''slope-cells'' \<noteq> None"
  shows "upsert_slope_cells m fc =
    Inr (m\<lparr>sources := map (\<lambda>(k, d). if k = ''slope-cells'' then (k, fc) else (k, d)) (sources m),
           layers := map (\<lambda>l. if layer_id l = ''slope-cells''
                                then l\<lparr>paint := AList.update ''fill-color'' (Get ''color'') (paint l)\<rparr>
                                else l) (layers m)\<rparr>)"
  using assms
  by (simp add: upsert_slope_cells_def setData_def setPaintProperty_def)

lemma map_unchanged: "\<forall>x \<in> set xs. f x = x \<Longrightarrow> map f xs = xs"
  by (induction xs) auto

text \<open>
  On a surface with nothing registered for the slope cells, publishing \<open>fc1\<close> and then
  \<open>fc2\<close> leaves one source \<^verbatim>\<open>slope-cells\<close>, holding \<open>fc2\<close>, one fill layer, one outline
  layer and one set of three listeners; the second call replaces the data of the source
  and leaves the layers, their paint and the listeners as the first call left them. On
  any surface that has the source, a call adds no source, no layer and no listener.
\<close>

lemma upsert_twice_fresh:
  "(no_slope_cells m \<longrightarrow>
     (\<exists>m1 m2. upsert_slope_cells m fc1 = Inr m1 \<and> upsert_slope_cells m1 fc2 = Inr m2 \<and>
        filter (\<lambda>(k, d). k = ''slope-cells'') (sources m2) = [(''slope-cells'', fc2)] \<and>
        getSource m2 ''slope-cells'' = Some fc2 \<and>
        filter (\<lambda>l. layer_id l = ''slope-cells'') (layers m2) = [slope_cells_fill] \<and>
        filter (\<lambda>l. layer_id l = ''slope-cells-outline'') (layers m2) = [slope_cells_outline] \<and>
        filter (\<lambda>(event, lid). lid = ''slope-cells'') (listeners m2) =
          [(''click'', ''slope-cells''), (''mouseenter'', ''slope-cells''),
           (''mouseleave'', ''slope-cells'')] \<and>
        layers m2 = layers m1 \<and> listeners m2 = listeners m1 \<and>
        sources m2 = sources m @ [(''slope-cells'', fc2)] \<and>
        sources m1 = sources m @ [(''slope-cells'', fc1)] \<and>
        layers m1 = layers m @ [slope_cells_fill, slope_cells_outline] \<and>
        listeners m1 = listeners m @
          [(''click'', ''slope-cells''), (''mouseenter'', ''slope-cells''),
           (''mouseleave'', ''slope-cells'')])) \<and>
   (getSource m ''slope-cells'' \<noteq> None \<longrightarrow>
     (\<exists>m'. upsert_slope_cells m fc1 = Inr m' \<and>
        map fst (sources m') = map fst (sources m) \<and>
        map layer_id (layers m') = map layer_id (layers m) \<and>
        listeners m' = listeners m))"
proof (intro conjI impI)
  assume fresh: "no_slope_cells m"
  let ?ls = "[(''click'', ''slope-cells''), (''mouseenter'', ''slope-cells''),
              (''mouseleave'', ''slope-cells'')]"
  define m1 where "m1 = \<lparr>sources = sources m @ [(''slope-cells'', fc1)],
         layers = layers m @ [slope_cells_fill, slope_cells_outline],
         listeners = listeners m @ ?ls\<rparr>"
  define m2 where "m2 = m1\<lparr>sources := sources m @ [(''slope-cells'', fc2)]\<rparr>"
  have first: "upsert_slope_cells m fc1 = Inr m1"
    unfolding m1_def by (rule upsert_create [OF fresh])
  have src: "\<forall>x \<in> set (sources m). \<not> (\<lambda>(k, d). k = ''slope-cells'') x"
    using fresh by (force simp: no_slope_cells_def)+
  have lay: "\<forall>l \<in> set (layers m). layer_id l \<noteq> ''slope-cells''"
    and lay': "\<forall>l \<in> set (layers m). layer_id l \<noteq> ''slope-cells-outline''"
    using fresh by (force simp: no_slope_cells_def)+
  have lis: "\<forall>x \<in> set (listeners m). \<not> (\<lambda>(event, lid). lid = ''slope-cells'') x"
    using fresh by (force simp: no_slope_cells_def)+
  have none: "map_of (sources m) ''slope-cells'' = None"
    using fresh by (simp add: no_slope_cells_def map_of_eq_None_iff)
  have present: "getSource m1 ''slope-cells'' \<noteq> None"
    by (simp add: getSource_def m1_def)
  have s2: "map (\<lambda>(k, d). if k = ''slope-cells'' then (k, fc2) else (k, d)) (sources m1)
      = sources m @ [(''slope-cells'', fc2)]"
    using src by (simp add: m1_def) (rule map_unchanged, auto)
  have l2: "map (\<lambda>l. if layer_id l = ''slope-cells''
                      then l\<lparr>paint := AList.update ''fill-color'' (Get ''color'') (paint l)\<rparr>
                      else l) (layers m1) = layers m1"
    using lay by (simp add: m1_def slope_cells_fill_def slope_cells_outline_def)
      (rule map_unchanged, auto)
  have second: "upsert_slope_cells m1 fc2 = Inr m2"
    unfolding upsert_update [OF present] s2 l2 m2_def by simp
  have "filter (\<lambda>(k, d). k = ''slope-cells'') (sources m2) = [(''slope-cells'', fc2)]"
    using src by (simp add: m2_def)
  moreover have "getSource m2 ''slope-cells'' = Some fc2"
    using none by (simp add: m2_def getSource_def map_add_def)
  moreover have "filter (\<lambda>l. layer_id l = ''slope-cells'') (layers m2) = [slope_cells_fill]"
    using lay by (simp add: m2_def m1_def slope_cells_fill_def slope_cells_outline_def)
  moreover have "filter (\<lambda>l. layer_id l = ''slope-cells-outline'') (layers m2) = [slope_cells_outline]"
    using lay' by (simp add: m2_def m1_def slope_cells_fill_def slope_cells_outline_def)
  moreover have "filter (\<lambda>(event, lid). lid = ''slope-cells'') (listeners m2) = ?ls"
    using lis by (simp add: m2_def m1_def)
  moreover have "layers m2 = layers m1" "listeners m2 = listeners m1"
    "sources m2 = sources m @ [(''slope-cells'', fc2)]"
    "sources m1 = sources m @ [(''slope-cells'', fc1)]"
    "layers m1 = layers m @ [slope_cells_fill, slope_cells_outline]"
    "listeners m1 = listeners m @ ?ls"
    by (simp_all add: m2_def m1_def)
  ultimately show "\<exists>m1 m2. upsert_slope_cells m fc1 = Inr m1 \<and> upsert_slope_cells m1 fc2 = Inr m2 \<and>
        filter (\<lambda>(k, d). k = ''slope-cells'') (sources m2) = [(''slope-cells'', fc2)] \<and>
        getSource m2 ''slope-cells'' = Some fc2 \<and>
        filter (\<lambda>l. layer_id l = ''slope-cells'') (layers m2) = [slope_cells_fill] \<and>
        filter (\<lambda>l. layer_id l = ''slope-cells-outline'') (layers m2) = [slope_cells_outline] \<and>
        filter (\<lambda>(event, lid). lid = ''slope-cells'') (listeners m2) = ?ls \<and>
        layers m2 = layers m1 \<and> listeners m2 = listeners m1 \<and>
        sources m2 = sources m @ [(''slope-cells'', fc2)] \<and>
        sources m1 = sources m @ [(''slope-cells'', fc1)] \<and>
        layers m1 = layers m @ [slope_cells_fill, slope_cells_outline] \<and>
        listeners m1 = listeners m @ ?ls"
    using first second by blast
next
  assume "getSource m ''slope-cells'' \<noteq> None"
  then show "\<exists>m'. upsert_slope_cells m fc1 = Inr m' \<and>
        map fst (sources m') = map fst (sources m) \<and>
        map layer_id (layers m') = map layer_id (layers m) \<and>
        listeners m' = listeners m"
    by (auto simp: upsert_update o_def split_beta intro!: map_idI)
qed


text \<open>
  The branch that clears the cells leaves the listeners where they are, and a
  publication on a surface without the source binds three more.
\<close>

lemma listeners_clear_slope_cells: "listeners (clear_slope_cells m) = listeners m"
  by (simp add: clear_slope_cells_def removeLayer_def removeSource_def Let_def)

lemma upsert_create_listeners:
  assumes "getSource m ''slope-cells'' = None"
  shows "\<exists>m'. upsert_slope_cells m fc = Inr m' \<and>
     listeners m' = listeners m @ [(''click'', ''slope-cells''), (''mouseenter'', ''slope-cells''),
                                  (''mouseleave'', ''slope-cells'')]"
  using assms
  by (simp add: upsert_slope_cells_def addSource_def addLayer_def on_def Let_def)

text \<open>
  Claim C4 fails on a map whose slope layer was shown, hidden and shown again. Four runs
  of the effect on a new map: a payload (the cells are created), no payload (the layers
  and the source are removed, the listeners stay), a payload \<open>fc1\<close> (the cells are
  created again, with three more listeners), a payload \<open>fc2\<close> (the data is replaced).
  The map then has one source holding \<open>fc2\<close>, one fill layer and one outline layer, but
  two sets of listeners on \<^verbatim>\<open>slope-cells\<close>, where the claim has one.
\<close>

theorem upsert_after_clear:
  "slope_effects \<lparr>sources = [], layers = [], listeners = []\<rparr>
     [(Some \<lparr>slopes_percent = Some [[5]], slopes = None, bbox = Some (0, 0, 1, 1),
              grid_size = Some 1\<rparr>, Some DEFAULT_RANGES),
      (None, Some DEFAULT_RANGES),
      (Some \<lparr>slopes_percent = Some [[5]], slopes = None, bbox = Some (0, 0, 1, 1),
              grid_size = Some 1\<rparr>, Some DEFAULT_RANGES),
      (Some \<lparr>slopes_percent = Some [[80]], slopes = None, bbox = Some (0, 0, 1, 1),
              grid_size = Some 1\<rparr>, Some DEFAULT_RANGES)]
   = Inr \<lparr>sources =
            [(''slope-cells'',
              [\<lparr>coordinates = [(0, 0), (1, 0), (1, 1), (0, 1), (0, 0)], prop_slope = 80,
                prop_color = ''#ff0000''\<rparr>])],
          layers = [slope_cells_fill, slope_cells_outline],
          listeners =
            [(''click'', ''slope-cells''), (''mouseenter'', ''slope-cells''),
             (''mouseleave'', ''slope-cells''),
             (''click'', ''slope-cells''), (''mouseenter'', ''slope-cells''),
             (''mouseleave'', ''slope-cells'')]\<rparr>"
  by (simp add: slope_effect_def slope_features_def or_grid_def or_size_def Let_def
        cell_feature_def round1_def ranges_or_empty_def classify_def last_range_def
        or_string_def DEFAULT_RANGES_def default_color_def
        upsert_slope_cells_def getSource_def addSource_def addLayer_def on_def
        setData_def setPaintProperty_def clear_slope_cells_def getLayer_def removeLayer_def
        removeSource_def slope_cells_fill_def slope_cells_outline_def)

section \<open>Properties of the table of ranges\<close>

lemma filter_enumerate_neq:
  "map snd (filter (\<lambda>(i, x). i \<noteq> k + idx) (enumerate k xs)) = take idx xs @ drop (Suc idx) xs"
proof (induction xs arbitrary: k idx)
  case Nil
  then show ?case by simp
next
  case (Cons x xs)
  show ?case
  proof (cases idx)
    case 0
    have "\<forall>p \<in> set (enumerate (Suc k) xs). (\<lambda>(i, x). i \<noteq> k) p"
      by (auto simp: in_set_enumerate_eq)
    then have "filter (\<lambda>(i, x). i \<noteq> k) (enumerate (Suc k) xs) = enumerate (Suc k) xs"
      by (intro filter_True) auto
    with 0 show ?thesis by simp
  next
    case (Suc idx')
    with Cons.IH [of "Suc k" idx'] show ?thesis by simp
  qed
qed

lemma handleDeleteRange_eq:
  "handleDeleteRange ranges idx =
     (if length ranges \<le> 2 then None else Some (take idx ranges @ drop (Suc idx) ranges))"
  using filter_enumerate_neq [of 0 idx ranges] by (simp add: handleDeleteRange_def)

text \<open>
  Claim C8. Deleting from a table of two ranges or fewer changes nothing: the handler
  returns without a call and the table keeps its length and contents. From a longer
  table, deleting at an index of the table removes that entry and keeps the others in
  their order. A table of at least two ranges keeps at least two under every handler:
  deletion, addition and the three edits.
\<close>

theorem delete_range:
  "(length ranges \<le> 2 \<longrightarrow>
      handleDeleteRange ranges idx = None \<and>
      table_after ranges (handleDeleteRange ranges idx) = ranges) \<and>
   (2 < length ranges \<and> idx < length ranges \<longrightarrow>
      table_after ranges (handleDeleteRange ranges idx) = take idx ranges @ drop (Suc idx) ranges \<and>
      length (table_after ranges (handleDeleteRange ranges idx)) = length ranges - 1) \<and>
   (2 \<le> length ranges \<longrightarrow>
      2 \<le> length (table_after ranges (handleDeleteRange ranges idx)) \<and>
      2 \<le> length (handleAddRange num_str ranges) \<and>
      (\<forall>u. handleRangeMinChange parseFloat num_str ranges idx val = Inr u \<longrightarrow> 2 \<le> length u) \<and>
      (\<forall>u. handleRangeMaxChange parseFloat num_str ranges idx val = Inr u \<longrightarrow> 2 \<le> length u) \<and>
      (\<forall>u. handleRangeColorChange ranges idx newColor = Inr u \<longrightarrow> 2 \<le> length u))"
  by (auto simp: handleDeleteRange_eq table_after_def handleAddRange_def Let_def
        handleRangeMinChange_def handleRangeMaxChange_def handleRangeColorChange_def
      split: if_splits)

text \<open>Deleting entry 0 of two ranges, and entry 1 of three.\<close>

theorem delete_range_witness:
  "length [\<lparr>rmin = 0, rmax = 3, color = ''#38a800'', label = ''a''\<rparr>,
           \<lparr>rmin = 3, rmax = 7, color = ''#267300'', label = ''b''\<rparr>] \<le> 2 \<and>
   table_after [\<lparr>rmin = 0, rmax = 3, color = ''#38a800'', label = ''a''\<rparr>,
                \<lparr>rmin = 3, rmax = 7, color = ''#267300'', label = ''b''\<rparr>]
     (handleDeleteRange [\<lparr>rmin = 0, rmax = 3, color = ''#38a800'', label = ''a''\<rparr>,
                         \<lparr>rmin = 3, rmax = 7, color = ''#267300'', label = ''b''\<rparr>] 0)
     = [\<lparr>rmin = 0, rmax = 3, color = ''#38a800'', label = ''a''\<rparr>,
        \<lparr>rmin = 3, rmax = 7, color = ''#267300'', label = ''b''\<rparr>] \<and>
   2 < length [\<lparr>rmin = 0, rmax = 3, color = ''#38a800'', label = ''a''\<rparr>,
               \<lparr>rmin = 3, rmax = 7, color = ''#267300'', label = ''b''\<rparr>,
               \<lparr>rmin = 7, rmax = 12, color = ''#a8a800'', label = ''c''\<rparr>] \<and>
   table_after [\<lparr>rmin = 0, rmax = 3, color = ''#38a800'', label = ''a''\<rparr>,
                \<lparr>rmin = 3, rmax = 7, color = ''#267300'', label = ''b''\<rparr>,
                \<lparr>rmin = 7, rmax = 12, color = ''#a8a800'', label = ''c''\<rparr>]
     (handleDeleteRange [\<lparr>rmin = 0, rmax = 3, color = ''#38a800'', label = ''a''\<rparr>,
                         \<lparr>rmin = 3, rmax = 7, color = ''#267300'', label = ''b''\<rparr>,
                         \<lparr>rmin = 7, rmax = 12, color = ''#a8a800'', label = ''c''\<rparr>] 1)
     = [\<lparr>rmin = 0, rmax = 3, color = ''#38a800'', label = ''a''\<rparr>,
        \<lparr>rmin = 7, rmax = 12, color = ''#a8a800'', label = ''c''\<rparr>]"
  using delete_range [of "[\<lparr>rmin = 0, rmax = 3, color = ''#38a800'', label = ''a''\<rparr>,
                           \<lparr>rmin = 3, rmax = 7, color = ''#267300'', label = ''b''\<rparr>]" 0
                         "\<lambda>r. ''0''" "\<lambda>s. None" "''''" "''#000000''", THEN conjunct1]
        delete_range [of "[\<lparr>rmin = 0, rmax = 3, color = ''#38a800'', label = ''a''\<rparr>,
                           \<lparr>rmin = 3, rmax = 7, color = ''#267300'', label = ''b''\<rparr>,
                           \<lparr>rmin = 7, rmax = 12, color = ''#a8a800'', label = ''c''\<rparr>]" 1
                         "\<lambda>r. ''0''" "\<lambda>s. None" "''''" "''#000000''",
                      THEN conjunct2, THEN conjunct1]
  by (simp add: table_after_def)




text \<open>
  Claim C10. Editing the minimum or the maximum at an index of the table stores the
  parsed number, and 0 when the text does not parse to a number; the entry keeps its
  colour and its other bound, takes the label derived from its bounds (\<^verbatim>\<open>> min%\<close> from a
  minimum of 75 on, both bounds below), and every other entry stays as it was.
\<close>

theorem edit_bounds:
  assumes "idx < length ranges"
  shows "(\<exists>u. handleRangeMinChange parseFloat num_str ranges idx val = Inr u \<and>
            length u = length ranges \<and>
            (\<forall>j < length ranges. j \<noteq> idx \<longrightarrow> u ! j = ranges ! j) \<and>
            rmin (u ! idx) = (case parseFloat val of None \<Rightarrow> 0 | Some x \<Rightarrow> x) \<and>
            (parseFloat val = None \<longrightarrow> rmin (u ! idx) = 0) \<and>
            rmax (u ! idx) = rmax (ranges ! idx) \<and>
            color (u ! idx) = color (ranges ! idx) \<and>
            label (u ! idx) =
              (if rmin (u ! idx) \<ge> 75 then ''> '' @ num_str (rmin (u ! idx)) @ ''%''
               else num_str (rmin (u ! idx)) @ '' '' @ en_dash @ '' '' @
                    num_str (rmax (u ! idx)) @ ''%'')) \<and>
         (\<exists>u. handleRangeMaxChange parseFloat num_str ranges idx val = Inr u \<and>
            length u = length ranges \<and>
            (\<forall>j < length ranges. j \<noteq> idx \<longrightarrow> u ! j = ranges ! j) \<and>
            rmax (u ! idx) = (case parseFloat val of None \<Rightarrow> 0 | Some x \<Rightarrow> x) \<and>
            (parseFloat val = None \<longrightarrow> rmax (u ! idx) = 0) \<and>
            rmin (u ! idx) = rmin (ranges ! idx) \<and>
            color (u ! idx) = color (ranges ! idx) \<and>
            label (u ! idx) =
              (if rmin (u ! idx) \<ge> 75 then ''> '' @ num_str (rmin (u ! idx)) @ ''%''
               else num_str (rmin (u ! idx)) @ '' '' @ en_dash @ '' '' @
                    num_str (rmax (u ! idx)) @ ''%''))"
  using assms
  by (auto simp: handleRangeMinChange_def handleRangeMaxChange_def or_num_def Let_def
      split: option.splits)

text \<open>
  The text \<^verbatim>\<open>abc\<close> as the minimum of the second default range, the empty text as its
  maximum: both bounds become 0.
\<close>

theorem edit_bounds_witness:
  "(1::nat) < length DEFAULT_RANGES \<and>
   (\<lambda>s. if s = ''4.5'' then Some (9 / 2) else None) ''abc'' = None \<and>
   handleRangeMinChange (\<lambda>s. if s = ''4.5'' then Some (9 / 2) else None)
       (\<lambda>r. if r = 0 then ''0'' else ''7'') DEFAULT_RANGES 1 ''abc''
     = Inr (DEFAULT_RANGES[1 := \<lparr>rmin = 0, rmax = 7, color = ''#267300'',
                                  label = ''0 '' @ en_dash @ '' 7%''\<rparr>]) \<and>
   handleRangeMaxChange (\<lambda>s. if s = ''4.5'' then Some (9 / 2) else None)
       (\<lambda>r. if r = 0 then ''0'' else ''3'') DEFAULT_RANGES 1 ''''
     = Inr (DEFAULT_RANGES[1 := \<lparr>rmin = 3, rmax = 0, color = ''#267300'',
                                  label = ''3 '' @ en_dash @ '' 0%''\<rparr>])"
  using edit_bounds [of 1 DEFAULT_RANGES "\<lambda>s. if s = ''4.5'' then Some (9 / 2) else None"
          "\<lambda>r. if r = 0 then ''0'' else ''7''" "''abc''"]
  by (simp add: DEFAULT_RANGES_def handleRangeMinChange_def handleRangeMaxChange_def
        or_num_def)

end
